theory Spec2Isabelle
  imports Complex_Main
begin

section \<open>The storefront backend: documents, store and route handlers\<close>

text \<open>
  The development embeds the Express route handlers of the product router together with
  the three Mongoose schemas (User, Product, Order). A handler is a function from the
  request's fields and the store to a reply and the store it leaves behind; a handler that
  answers with an error keeps whatever it had already written, as the JavaScript does.

  Conventions of the embedding.
  \<^item> A JavaScript Number is modelled in exact arithmetic: stock, quantities and counts are
    \<open>int\<close> or \<open>nat\<close>, prices, ratings and averages are \<open>rat\<close>. Binary rounding of
    doubles is outside the model; \<open>toFixed(2)\<close> is its decimal rounding rule (nearest
    hundredth, a tie going to the larger magnitude) applied to the exact quotient.
  \<^item> A request field that may be missing is an \<open>option\<close>; \<open>!x\<close> is \<open>falsy\<close>.
    Fields are well typed: a string where the handler expects a string, a number where it
    expects a number.
  \<^item> An ObjectId is a \<open>nat\<close>; a collection is an association list in insertion order,
    looked up by \<open>_id\<close>, which the store keeps unique. An update by id writes the
    document found by that id, a delete by id removes it, and a created document gets an
    id no stored document has.
  \<^item> Mongoose calls follow the library's rules: \<open>findByIdAndUpdate\<close> writes only the
    keys that are not \<open>undefined\<close>, runs no validators and leaves the store alone when the
    id is absent; \<open>save()\<close> runs the validators the schema declares (\<open>required\<close>,
    \<open>enum\<close>, \<open>min\<close>, \<open>max\<close>) on the document, new or loaded, and throws when one
    fails (\<open>required\<close> rejects the empty string); \<open>$push\<close> appends, \<open>$pull\<close>
    removes every matching element, \<open>$inc\<close> adds.
  \<^item> The \<open>auth\<close> and \<open>admin\<close> middlewares run before a handler; a handler behind
    \<open>auth\<close> receives the identity \<open>req.user = {id, role}\<close> as arguments.
  \<^item> \<open>populate\<close> joins referenced documents into the reply only; replies carry the
    stored document.
\<close>

subsection \<open>Numbers\<close>

definition toFixed2 :: "rat \<Rightarrow> rat" where
  "toFixed2 x =
     (if x < 0 then - (of_int \<lfloor>(- x) * 100 + 1 / 2\<rfloor> / 100)
      else of_int \<lfloor>x * 100 + 1 / 2\<rfloor> / 100)"

definition mean :: "rat list \<Rightarrow> rat" where
  "mean rs = sum_list rs / of_nat (length rs)"

subsection \<open>Documents\<close>

record cart_item =
  ci_productId :: nat
  ci_quantity :: int
  ci_addedAt :: nat

record user =
  u_name :: string
  u_email :: string
  u_password :: string
  u_role :: string
  u_phone :: string
  u_address :: string
  u_cart :: "cart_item list"
  u_createdAt :: nat
  u_updatedAt :: nat

record review =
  rv_userId :: nat
  rv_userName :: string
  rv_rating :: rat
  rv_comment :: "string option"
  rv_createdAt :: nat

record product =
  p_name :: string
  p_price :: rat
  p_description :: "string option"
  p_category :: "string option"
  p_stock :: int
  p_assignedAdmin :: "nat option"
  p_reviews :: "review list"
  p_averageRating :: rat
  p_totalReviews :: nat
  p_createdAt :: nat
  p_updatedAt :: nat

record order_item =
  oi_productId :: nat
  oi_productName :: string
  oi_quantity :: int
  oi_price :: rat
  oi_subtotal :: rat

record tracking =
  dt_status :: string
  dt_location :: string
  dt_estimatedDelivery :: "nat option"
  dt_updatedAt :: nat

record order =
  o_userId :: nat
  o_items :: "order_item list"
  o_totalAmount :: rat
  o_deliveryAddress :: string
  o_paymentMethod :: string
  o_paymentStatus :: string
  o_orderStatus :: string
  o_deliveryTracking :: tracking
  o_createdAt :: nat
  o_updatedAt :: nat

subsection \<open>Collections\<close>

type_synonym 'd coll = "(nat \<times> 'd) list"

record store =
  users :: "user coll"
  products :: "product coll"
  orders :: "order coll"

definition findById :: "'d coll \<Rightarrow> nat \<Rightarrow> 'd option" where
  "findById c i = map_of c i"

definition findOne :: "('d \<Rightarrow> bool) \<Rightarrow> 'd coll \<Rightarrow> (nat \<times> 'd) option" where
  "findOne P c = List.find (\<lambda>(i, d). P d) c"

fun updateById :: "nat \<Rightarrow> ('d \<Rightarrow> 'd) \<Rightarrow> 'd coll \<Rightarrow> 'd coll" where
  "updateById i f [] = []"
| "updateById i f ((j, d) # c) = (if j = i then (j, f d) # c else (j, d) # updateById i f c)"

definition deleteById :: "nat \<Rightarrow> 'd coll \<Rightarrow> 'd coll" where
  "deleteById i c = filter (\<lambda>(j, d). j \<noteq> i) c"

definition newId :: "'d coll \<Rightarrow> nat" where
  "newId c = Suc (foldr max (map fst c) 0)"

definition create :: "'d \<Rightarrow> 'd coll \<Rightarrow> 'd coll" where
  "create d c = c @ [(newId c, d)]"

subsection \<open>Replies\<close>

datatype err_kind =
  ValidationError | ConflictError | AuthError | ForbiddenError | NotFoundError | InternalError

datatype failure = Failure err_kind nat string

type_synonym 'a reply = "failure + (nat \<times> string \<times> 'a)"

definition falsy :: "string option \<Rightarrow> bool" where
  "falsy x = (case x of None \<Rightarrow> True | Some v \<Rightarrow> v = [])"

definition thrown :: "string \<Rightarrow> failure" where
  "thrown m = Failure InternalError 500 m"

definition digit :: "nat \<Rightarrow> char" where
  "digit d = ''0123456789'' ! (d mod 10)"

function id_text :: "nat \<Rightarrow> string" where
  "id_text n = (if n < 10 then [digit n] else id_text (n div 10) @ [digit n])"
  by pat_completeness auto
termination
  by (relation "measure id") auto

definition str_of :: "string option \<Rightarrow> string" where
  "str_of x = (case x of None \<Rightarrow> [] | Some v \<Rightarrow> v)"

definition falsy_num :: "'a::zero option \<Rightarrow> bool" where
  "falsy_num x = (case x of None \<Rightarrow> True | Some v \<Rightarrow> v = 0)"

definition num_of :: "'a::zero option \<Rightarrow> 'a" where
  "num_of x = (case x of None \<Rightarrow> 0 | Some v \<Rightarrow> v)"

definition keep :: "'a option \<Rightarrow> 'a \<Rightarrow> 'a" where
  "keep supplied old = (case supplied of None \<Rightarrow> old | Some v \<Rightarrow> v)"

definition keep_opt :: "'a option \<Rightarrow> 'a option \<Rightarrow> 'a option" where
  "keep_opt supplied old = (case supplied of None \<Rightarrow> old | Some v \<Rightarrow> Some v)"

subsection \<open>Schema validators run by \<open>save()\<close>\<close>

definition validate_user :: "user \<Rightarrow> bool" where
  "validate_user u =
     (u_name u \<noteq> [] \<and> u_email u \<noteq> [] \<and> u_password u \<noteq> [] \<and>
      u_role u \<in> set [''user'', ''admin''])"

definition validate_product :: "product \<Rightarrow> bool" where
  "validate_product p =
     (p_name p \<noteq> [] \<and> list_all (\<lambda>r. 1 \<le> rv_rating r \<and> rv_rating r \<le> 5) (p_reviews p))"

definition validate_order :: "order \<Rightarrow> bool" where
  "validate_order od =
     (list_all (\<lambda>item. 1 \<le> oi_quantity item) (o_items od) \<and>
      o_deliveryAddress od \<noteq> [] \<and>
      o_paymentMethod od \<in> set [''credit_card'', ''debit_card'', ''upi'', ''net_banking'', ''wallet''] \<and>
      o_paymentStatus od \<in> set [''pending'', ''completed'', ''failed''] \<and>
      o_orderStatus od \<in>
        set [''pending'', ''confirmed'', ''processing'', ''shipped'', ''delivered'', ''cancelled''] \<and>
      dt_status (o_deliveryTracking od) \<in>
        set [''not_shipped'', ''in_transit'', ''out_for_delivery'', ''delivered''])"

subsection \<open>Account routes\<close>

text \<open>\<open>POST /signup\<close>; \<open>hash\<close> stands for \<open>bcrypt.hash(_, 10)\<close>.\<close>

definition signup ::
  "(string \<Rightarrow> string) \<Rightarrow> nat \<Rightarrow> string option \<Rightarrow> string option \<Rightarrow> string option \<Rightarrow>
   string option \<Rightarrow> string option \<Rightarrow> store \<Rightarrow> (nat \<times> user) reply \<times> store" where
  "signup hash now name email password phone role s =
     (if falsy name \<or> falsy email \<or> falsy password
      then (Inl (Failure ValidationError 400 ''Name, email and password are required''), s)
      else
        let userRole = (if role = Some ''admin'' \<or> role = Some ''user'' then str_of role else ''user'')
        in case findOne (\<lambda>u. u_email u = str_of email) (users s) of
             Some existing \<Rightarrow>
               (Inl (Failure ConflictError 400 ''User with this email already exists''), s)
           | None \<Rightarrow>
               let newUser = \<lparr>u_name = str_of name, u_email = str_of email,
                     u_password = hash (str_of password), u_role = userRole,
                     u_phone = str_of phone, u_address = [], u_cart = [],
                     u_createdAt = now, u_updatedAt = now\<rparr>
               in if \<not> validate_user newUser then (Inl (thrown ''User validation failed''), s)
                  else (Inr (201,
                          (if userRole = ''admin'' then ''Admin'' else ''User'') @
                            '' signup successful. Please login to receive a token.'',
                          (newId (users s), newUser)),
                        s\<lparr>users := create newUser (users s)\<rparr>))"

text \<open>
  \<open>POST /login\<close>; \<open>compare\<close> stands for \<open>bcrypt.compare\<close> and \<open>sign\<close> for
  \<open>jwt.sign\<close> with the server's secret. The handler reads the store only.
\<close>

definition login ::
  "(string \<Rightarrow> string \<Rightarrow> bool) \<Rightarrow> (nat \<Rightarrow> string \<Rightarrow> string) \<Rightarrow> string \<Rightarrow> string \<Rightarrow>
   store \<Rightarrow> (string \<times> string) reply" where
  "login compare sign email password s =
     (case findOne (\<lambda>u. u_email u = email) (users s) of
        None \<Rightarrow> Inl (Failure AuthError 400 ''Invalid credentials'')
      | Some (uid, usr) \<Rightarrow>
          if \<not> compare password (u_password usr)
          then Inl (Failure AuthError 400 ''Invalid credentials'')
          else Inr (200, ''Login successful'', (sign uid (u_role usr), u_role usr)))"

text \<open>
  \<open>PUT /profile/update\<close>. The unique index on \<open>email\<close> makes the store refuse an
  address another user holds.
\<close>

definition updateProfile ::
  "nat \<Rightarrow> string option \<Rightarrow> string option \<Rightarrow> string option \<Rightarrow> string option \<Rightarrow>
   store \<Rightarrow> user reply \<times> store" where
  "updateProfile userId name email phone address s =
     (if findById (users s) userId \<noteq> None \<and>
         (case email of None \<Rightarrow> False
          | Some e \<Rightarrow> list_ex (\<lambda>(i, u). i \<noteq> userId \<and> u_email u = e) (users s))
      then (Inl (thrown ''E11000 duplicate key error''), s)
      else
        let us = updateById userId
                   (\<lambda>u. u\<lparr>u_name := keep name (u_name u), u_email := keep email (u_email u),
                          u_phone := keep phone (u_phone u),
                          u_address := keep address (u_address u)\<rparr>) (users s)
        in case findById us userId of
             None \<Rightarrow> (Inl (Failure NotFoundError 404 ''User not found''), s\<lparr>users := us\<rparr>)
           | Some usr \<Rightarrow> (Inr (200, ''Profile updated successfully'', usr), s\<lparr>users := us\<rparr>))"

subsection \<open>Catalog routes\<close>

text \<open>
  \<open>POST /add\<close> (admin). A name that is not falsy and an empty review list pass the
  validators of \<open>save()\<close>, so the handler's two outcomes are the ones below.
\<close>

definition addProduct ::
  "nat \<Rightarrow> string option \<Rightarrow> rat option \<Rightarrow> string option \<Rightarrow> string option \<Rightarrow> int option \<Rightarrow>
   store \<Rightarrow> (nat \<times> product) reply \<times> store" where
  "addProduct now name price description category stock s =
     (if falsy name \<or> falsy_num price
      then (Inl (Failure ValidationError 400 ''Name and price are required''), s)
      else
        let product = \<lparr>p_name = str_of name, p_price = num_of price,
              p_description = description, p_category = category, p_stock = num_of stock,
              p_assignedAdmin = None, p_reviews = [], p_averageRating = 0,
              p_totalReviews = 0, p_createdAt = now, p_updatedAt = now\<rparr>
        in (Inr (201, ''Product added successfully'', (newId (products s), product)),
            s\<lparr>products := create product (products s)\<rparr>))"

text \<open>\<open>POST /assign\<close> (admin).\<close>

definition assignAdmin ::
  "nat option \<Rightarrow> nat option \<Rightarrow> store \<Rightarrow> product reply \<times> store" where
  "assignAdmin productId adminId s =
     (case productId of
        None \<Rightarrow> (Inl (Failure ValidationError 400 ''Product ID and Admin ID are required''), s)
      | Some pid \<Rightarrow>
         (case adminId of
            None \<Rightarrow>
              (Inl (Failure ValidationError 400 ''Product ID and Admin ID are required''), s)
          | Some aid \<Rightarrow>
              let ps = updateById pid (\<lambda>p. p\<lparr>p_assignedAdmin := Some aid\<rparr>) (products s)
              in case findById ps pid of
                   None \<Rightarrow>
                     (Inl (Failure NotFoundError 404 ''Product not found''), s\<lparr>products := ps\<rparr>)
                 | Some product \<Rightarrow>
                     (Inr (200, ''Product assigned successfully'', product),
                      s\<lparr>products := ps\<rparr>)))"

text \<open>\<open>PUT /update/:id\<close> (admin): the five body fields, each written only when supplied.\<close>

definition updateProduct ::
  "nat \<Rightarrow> string option \<Rightarrow> rat option \<Rightarrow> string option \<Rightarrow> string option \<Rightarrow> int option \<Rightarrow>
   store \<Rightarrow> product reply \<times> store" where
  "updateProduct pid name price description category stock s =
     (let ps = updateById pid
                 (\<lambda>p. p\<lparr>p_name := keep name (p_name p), p_price := keep price (p_price p),
                        p_description := keep_opt description (p_description p),
                        p_category := keep_opt category (p_category p),
                        p_stock := keep stock (p_stock p)\<rparr>) (products s)
      in case findById ps pid of
           None \<Rightarrow> (Inl (Failure NotFoundError 404 ''Product not found''), s\<lparr>products := ps\<rparr>)
         | Some product \<Rightarrow>
             (Inr (200, ''Product updated successfully'', product), s\<lparr>products := ps\<rparr>))"

text \<open>
  \<open>POST /:productId/reviews\<close> (auth). The rating test is
  \<open>!rating || rating < 1 || rating > 5\<close>; \<open>user.name\<close> on a missing user throws, and
  the \<open>$push\<close> is already stored when \<open>product.save()\<close> validates.
\<close>

definition postReview ::
  "nat \<Rightarrow> nat \<Rightarrow> nat \<Rightarrow> rat option \<Rightarrow> string option \<Rightarrow> store \<Rightarrow> product reply \<times> store" where
  "postReview now userId productId rating comment s =
     (if falsy_num rating \<or> num_of rating < 1 \<or> num_of rating > 5
      then (Inl (Failure ValidationError 400 ''Rating must be between 1 and 5''), s)
      else
        case findById (users s) userId of
          None \<Rightarrow> (Inl (thrown ''Cannot read properties of null (reading 'name')''), s)
        | Some usr \<Rightarrow>
            let ps = updateById productId
                       (\<lambda>p. p\<lparr>p_reviews := p_reviews p @
                                [\<lparr>rv_userId = userId, rv_userName = u_name usr,
                                  rv_rating = num_of rating, rv_comment = comment,
                                  rv_createdAt = now\<rparr>]\<rparr>) (products s)
            in case findById ps productId of
                 None \<Rightarrow>
                   (Inl (Failure NotFoundError 404 ''Product not found''), s\<lparr>products := ps\<rparr>)
               | Some product \<Rightarrow>
                   let totalRating =
                         foldl (\<lambda>sum rv. sum + rv_rating rv) 0 (p_reviews product);
                       averageRating = totalRating / of_nat (length (p_reviews product));
                       saved = product\<lparr>p_averageRating := toFixed2 averageRating,
                                 p_totalReviews := length (p_reviews product)\<rparr>
                   in if \<not> validate_product saved
                      then (Inl (thrown ''Product validation failed''), s\<lparr>products := ps\<rparr>)
                      else (Inr (201, ''Review posted successfully'', saved),
                            s\<lparr>products := updateById productId (\<lambda>p. saved) ps\<rparr>))"

subsection \<open>Cart routes\<close>

text \<open>
  The caller is \<open>(req.user && req.user.id) || body.userId || query.userId\<close> for the two
  writing routes.
\<close>

definition resolve :: "nat option \<Rightarrow> nat option \<Rightarrow> nat option \<Rightarrow> nat option" where
  "resolve a b c =
     (case a of Some x \<Rightarrow> Some x | None \<Rightarrow> (case b of Some y \<Rightarrow> Some y | None \<Rightarrow> c))"

text \<open>\<open>POST /cart/add\<close>.\<close>

definition addToCart ::
  "nat \<Rightarrow> nat option \<Rightarrow> nat option \<Rightarrow> int option \<Rightarrow> nat option \<Rightarrow> nat option \<Rightarrow>
   store \<Rightarrow> user option reply \<times> store" where
  "addToCart now reqUser productId quantity bodyUserId queryUserId s =
     (case productId of
        None \<Rightarrow> (Inl (Failure ValidationError 400 ''Product ID and quantity are required''), s)
      | Some pid \<Rightarrow>
          if falsy_num quantity
          then (Inl (Failure ValidationError 400 ''Product ID and quantity are required''), s)
          else
            case resolve reqUser bodyUserId queryUserId of
              None \<Rightarrow>
                (Inl (Failure ValidationError 400
                        ''userId is required (provide token or userId)''), s)
            | Some userId \<Rightarrow>
               (case findById (products s) pid of
                  None \<Rightarrow> (Inl (Failure NotFoundError 404 ''Product not found''), s)
                | Some product \<Rightarrow>
                    let us = updateById userId
                               (\<lambda>u. u\<lparr>u_cart := u_cart u @
                                        [\<lparr>ci_productId = pid, ci_quantity = num_of quantity,
                                          ci_addedAt = now\<rparr>]\<rparr>) (users s)
                    in (Inr (200, ''Product added to cart successfully'', findById us userId),
                        s\<lparr>users := us\<rparr>)))"

text \<open>\<open>DELETE /cart/delete/:productId\<close>.\<close>

definition removeFromCart ::
  "nat option \<Rightarrow> nat \<Rightarrow> nat option \<Rightarrow> nat option \<Rightarrow> store \<Rightarrow> user option reply \<times> store" where
  "removeFromCart reqUser productId bodyUserId queryUserId s =
     (case resolve reqUser bodyUserId queryUserId of
        None \<Rightarrow>
          (Inl (Failure ValidationError 400 ''userId is required (provide token or userId)''), s)
      | Some userId \<Rightarrow>
          let us = updateById userId
                     (\<lambda>u. u\<lparr>u_cart := filter (\<lambda>ci. ci_productId ci \<noteq> productId) (u_cart u)\<rparr>)
                     (users s)
          in (Inr (200, ''Product removed from cart successfully'', findById us userId),
              s\<lparr>users := us\<rparr>))"

subsection \<open>Order routes\<close>

text \<open>
  The loop of \<open>POST /orders/place\<close>: one item after the other, each product read, checked
  and decremented before the next item is looked at. The first failing item ends the
  request; the products written so far stay written.
\<close>

fun process_items ::
  "(nat \<times> int) list \<Rightarrow> rat \<Rightarrow> order_item list \<Rightarrow> product coll \<Rightarrow>
   (failure + rat \<times> order_item list) \<times> product coll" where
  "process_items [] totalAmount processedItems ps = (Inr (totalAmount, processedItems), ps)"
| "process_items ((productId, quantity) # rest) totalAmount processedItems ps =
     (case findById ps productId of
        None \<Rightarrow>
          (Inl (Failure NotFoundError 404 (''Product '' @ id_text productId @ '' not found'')), ps)
      | Some product \<Rightarrow>
          if p_stock product < quantity
          then (Inl (Failure ConflictError 400 (''Insufficient stock for '' @ p_name product)), ps)
          else
            let subtotal = p_price product * of_int quantity
            in process_items rest (totalAmount + subtotal)
                 (processedItems @
                    [\<lparr>oi_productId = productId, oi_productName = p_name product,
                      oi_quantity = quantity, oi_price = p_price product,
                      oi_subtotal = subtotal\<rparr>])
                 (updateById productId (\<lambda>p. p\<lparr>p_stock := p_stock p - quantity\<rparr>) ps))"

text \<open>\<open>POST /orders/place\<close> (auth).\<close>

definition placeOrder ::
  "nat \<Rightarrow> nat \<Rightarrow> (nat \<times> int) list option \<Rightarrow> string option \<Rightarrow> string option \<Rightarrow>
   store \<Rightarrow> (nat \<times> order) reply \<times> store" where
  "placeOrder now userId items deliveryAddress paymentMethod s =
     (if items = None \<or> items = Some []
      then (Inl (Failure ValidationError 400 ''Items are required''), s)
      else if falsy deliveryAddress \<or> falsy paymentMethod
      then (Inl (Failure ValidationError 400
                   ''Delivery address and payment method are required''), s)
      else
        case process_items (case items of None \<Rightarrow> [] | Some its \<Rightarrow> its) 0 [] (products s) of
          (Inl failed, ps) \<Rightarrow> (Inl failed, s\<lparr>products := ps\<rparr>)
        | (Inr (totalAmount, processedItems), ps) \<Rightarrow>
            let new_order = \<lparr>o_userId = userId, o_items = processedItems,
                  o_totalAmount = totalAmount, o_deliveryAddress = str_of deliveryAddress,
                  o_paymentMethod = str_of paymentMethod, o_paymentStatus = ''pending'',
                  o_orderStatus = ''pending'',
                  o_deliveryTracking = \<lparr>dt_status = ''not_shipped'', dt_location = [],
                     dt_estimatedDelivery = None, dt_updatedAt = now\<rparr>,
                  o_createdAt = now, o_updatedAt = now\<rparr>
            in if \<not> validate_order new_order
               then (Inl (thrown ''Order validation failed''), s\<lparr>products := ps\<rparr>)
               else (Inr (201, ''Order placed successfully'', (newId (orders s), new_order)),
                     s\<lparr>products := ps, orders := create new_order (orders s),
                       users := updateById userId (\<lambda>u. u\<lparr>u_cart := []\<rparr>) (users s)\<rparr>))"

text \<open>\<open>GET /user/orders\<close> (auth): the caller's orders, newest first.\<close>

definition listUserOrders :: "nat \<Rightarrow> store \<Rightarrow> (nat \<times> order) list" where
  "listUserOrders userId s =
     rev (sort_key (\<lambda>(i, od). o_createdAt od) (filter (\<lambda>(i, od). o_userId od = userId) (orders s)))"

text \<open>\<open>DELETE /orders/:orderId\<close> (auth): the restoring loop, then the handler.\<close>

fun restore_stock :: "order_item list \<Rightarrow> product coll \<Rightarrow> product coll" where
  "restore_stock [] ps = ps"
| "restore_stock (item # rest) ps =
     restore_stock rest
       (updateById (oi_productId item) (\<lambda>p. p\<lparr>p_stock := p_stock p + oi_quantity item\<rparr>) ps)"

definition cancelOrder ::
  "nat \<Rightarrow> string \<Rightarrow> nat \<Rightarrow> store \<Rightarrow> order option reply \<times> store" where
  "cancelOrder userId role orderId s =
     (case findById (orders s) orderId of
        None \<Rightarrow> (Inl (Failure NotFoundError 404 ''Order not found''), s)
      | Some od \<Rightarrow>
          if o_userId od \<noteq> userId \<and> role \<noteq> ''admin''
          then (Inl (Failure ForbiddenError 403 ''Unauthorized to delete this order''), s)
          else if o_orderStatus od = ''delivered''
          then (Inl (Failure ConflictError 400 ''Cannot cancel a delivered order''), s)
          else
            let ps = restore_stock (o_items od) (products s)
            in (Inr (200, ''Order cancelled/deleted successfully'', findById (orders s) orderId),
                s\<lparr>products := ps, orders := deleteById orderId (orders s)\<rparr>))"

text \<open>\<open>POST /delivery-tracking\<close> (admin).\<close>

definition updateDeliveryTracking ::
  "nat \<Rightarrow> nat option \<Rightarrow> string option \<Rightarrow> string option \<Rightarrow> nat option \<Rightarrow>
   store \<Rightarrow> order reply \<times> store" where
  "updateDeliveryTracking now orderId status location estimatedDelivery s =
     (case orderId of
        None \<Rightarrow> (Inl (Failure ValidationError 400 ''Order ID and status are required''), s)
      | Some oid \<Rightarrow>
          if falsy status
          then (Inl (Failure ValidationError 400 ''Order ID and status are required''), s)
          else
            let os = updateById oid
                       (\<lambda>od. od\<lparr>o_deliveryTracking :=
                                  (o_deliveryTracking od)\<lparr>dt_status := str_of status,
                                     dt_location := keep location (dt_location (o_deliveryTracking od)),
                                     dt_estimatedDelivery :=
                                       keep_opt estimatedDelivery
                                         (dt_estimatedDelivery (o_deliveryTracking od)),
                                     dt_updatedAt := now\<rparr>,
                                o_orderStatus :=
                                  (if str_of status = ''delivered'' then ''delivered''
                                   else ''shipped'')\<rparr>) (orders s)
            in case findById os oid of
                 None \<Rightarrow> (Inl (Failure NotFoundError 404 ''Order not found''), s\<lparr>orders := os\<rparr>)
               | Some od \<Rightarrow>
                   (Inr (200, ''Delivery tracking updated successfully'', od),
                    s\<lparr>orders := os\<rparr>))"

subsection \<open>Reachable stores\<close>

text \<open>
  The stores the service can be in: the empty store, and whatever a writing route leaves
  behind, called with any arguments by anyone (the two middlewares only remove calls).
\<close>

definition empty_store :: store where
  "empty_store = \<lparr>users = [], products = [], orders = []\<rparr>"

inductive reachable :: "store \<Rightarrow> bool" where
  r_empty: "reachable empty_store"
| r_signup: "reachable s \<Longrightarrow> reachable (snd (signup hash now name email password phone role s))"
| r_updateProfile:
    "reachable s \<Longrightarrow> reachable (snd (updateProfile userId name email phone address s))"
| r_addProduct:
    "reachable s \<Longrightarrow> reachable (snd (addProduct now name price description category stock s))"
| r_assignAdmin: "reachable s \<Longrightarrow> reachable (snd (assignAdmin productId adminId s))"
| r_updateProduct:
    "reachable s \<Longrightarrow> reachable (snd (updateProduct pid name price description category stock s))"
| r_postReview:
    "reachable s \<Longrightarrow> reachable (snd (postReview now userId productId rating comment s))"
| r_addToCart:
    "reachable s \<Longrightarrow>
     reachable (snd (addToCart now reqUser cartProductId quantity bodyUserId queryUserId s))"
| r_removeFromCart:
    "reachable s \<Longrightarrow> reachable (snd (removeFromCart reqUser pid bodyUserId queryUserId s))"
| r_placeOrder:
    "reachable s \<Longrightarrow> reachable (snd (placeOrder now userId items deliveryAddress paymentMethod s))"
| r_cancelOrder: "reachable s \<Longrightarrow> reachable (snd (cancelOrder userId role orderId s))"
| r_updateDeliveryTracking:
    "reachable s \<Longrightarrow>
     reachable (snd (updateDeliveryTracking now orderId status location estimatedDelivery s))"

subsection \<open>Quantities named by an order\<close>

text \<open>
  The total quantity a list of request items, or of stored order lines, names for one
  product; a product may occur in several lines.
\<close>

definition requested :: "nat \<Rightarrow> (nat \<times> int) list \<Rightarrow> int" where
  "requested pid items = sum_list (map snd (filter (\<lambda>(i, q). i = pid) items))"

definition ordered :: "nat \<Rightarrow> order_item list \<Rightarrow> int" where
  "ordered pid lines = sum_list (map oi_quantity (filter (\<lambda>l. oi_productId l = pid) lines))"


subsection \<open>A run of review posts\<close>


definition posted :: "product reply \<Rightarrow> bool" where
  "posted reply = (case reply of Inl failed \<Rightarrow> False | Inr (code, text, p) \<Rightarrow> code = 201)"

text \<open>What every stored product satisfies in a reachable store.\<close>

definition product_ok :: "product \<Rightarrow> bool" where
  "product_ok p =
     (list_all (\<lambda>r. 1 \<le> rv_rating r \<and> rv_rating r \<le> 5) (p_reviews p) \<and>
      (1 \<le> p_totalReviews p \<longrightarrow> 1 \<le> p_averageRating p \<and> p_averageRating p \<le> 5))"

definition rating_inv :: "store \<Rightarrow> bool" where
  "rating_inv s = (\<forall>pid p. findById (products s) pid = Some p \<longrightarrow> product_ok p)"

subsection \<open>Sample data\<close>

definition lamp :: product where
  "lamp = \<lparr>p_name = ''Lamp'', p_price = 10, p_description = Some ''Desk lamp'',
     p_category = Some ''home'', p_stock = 5, p_assignedAdmin = None, p_reviews = [],
     p_averageRating = 0, p_totalReviews = 0, p_createdAt = 1, p_updatedAt = 1\<rparr>"

definition chair :: product where
  "chair = \<lparr>p_name = ''Chair'', p_price = 45, p_description = None,
     p_category = None, p_stock = 3, p_assignedAdmin = Some 8, p_reviews = [],
     p_averageRating = 0, p_totalReviews = 0, p_createdAt = 2, p_updatedAt = 2\<rparr>"

definition asha :: user where
  "asha = \<lparr>u_name = ''Asha'', u_email = ''asha@example.com'', u_password = ''h:secret'',
     u_role = ''user'', u_phone = [], u_address = [],
     u_cart = [\<lparr>ci_productId = 1, ci_quantity = 1, ci_addedAt = 3\<rparr>,
               \<lparr>ci_productId = 2, ci_quantity = 4, ci_addedAt = 4\<rparr>],
     u_createdAt = 0, u_updatedAt = 0\<rparr>"

definition lamp_order :: order where
  "lamp_order = \<lparr>o_userId = 7,
     o_items = [\<lparr>oi_productId = 1, oi_productName = ''Lamp'', oi_quantity = 2, oi_price = 10,
                 oi_subtotal = 20\<rparr>],
     o_totalAmount = 20, o_deliveryAddress = ''12 Hill Road'', o_paymentMethod = ''upi'',
     o_paymentStatus = ''pending'', o_orderStatus = ''pending'',
     o_deliveryTracking = \<lparr>dt_status = ''not_shipped'', dt_location = [],
        dt_estimatedDelivery = None, dt_updatedAt = 5\<rparr>,
     o_createdAt = 5, o_updatedAt = 5\<rparr>"

definition shop :: store where
  "shop = \<lparr>users = [(7, asha)], products = [(1, lamp), (2, chair)], orders = [(3, lamp_order)]\<rparr>"

definition shop_delivered :: store where
  "shop_delivered = shop\<lparr>orders := [(3, lamp_order\<lparr>o_orderStatus := ''delivered''\<rparr>)]\<rparr>"

definition plain_hash :: "string \<Rightarrow> string" where
  "plain_hash password = ''h:'' @ password"

definition shop_day1 :: store where
  "shop_day1 =
     snd (postReview 2 1 1 (Some 4) None
       (snd (addProduct 1 (Some ''Lamp'') (Some 10) None None (Some 5)
         (snd (signup plain_hash 0 (Some ''Asha'') (Some ''asha@example.com'') (Some ''secret'')
                 None None empty_store)))))"


definition plain_compare :: "string \<Rightarrow> string \<Rightarrow> bool" where
  "plain_compare password hashed = (hashed = ''h:'' @ password)"

definition plain_sign :: "nat \<Rightarrow> string \<Rightarrow> string" where
  "plain_sign uid role = id_text uid @ ''.'' @ role"

section \<open>Properties\<close>

subsection \<open>Collections\<close>

lemma findById_updateById:
  "findById (updateById i f c) j = (if j = i then map_option f (findById c i) else findById c j)"
  by (induction c) (auto simp: findById_def)

lemma updateById_absent: "findById c i = None \<Longrightarrow> updateById i f c = c"
  by (induction c) (auto simp: findById_def split: if_splits)

lemma updateById_fixed: "findById c i = Some d \<Longrightarrow> f d = d \<Longrightarrow> updateById i f c = c"
  by (induction c) (auto simp: findById_def split: if_splits)

lemma findById_deleteById:
  "findById (deleteById i c) j = (if j = i then None else findById c j)"
  by (induction c) (auto simp: findById_def deleteById_def)

lemma foldr_max_ge: "(i, d) \<in> set (c :: 'd coll) \<Longrightarrow> i \<le> foldr max (map fst c) 0"
  by (induction c) (auto simp: le_max_iff_disj)

lemma newId_fresh: "findById c (newId c) = None"
proof -
  have "newId c \<notin> fst ` set c"
  proof
    assume "newId c \<in> fst ` set c"
    then obtain d where "(newId c, d) \<in> set c" by auto
    then have "newId c \<le> foldr max (map fst c) 0" by (rule foldr_max_ge)
    then show False by (simp add: newId_def)
  qed
  then show ?thesis by (simp add: findById_def map_of_eq_None_iff)
qed

lemma findById_create:
  "findById (create d c) j = (if j = newId c then Some d else findById c j)"
  using newId_fresh [of c]
  by (auto simp: create_def findById_def map_add_def split: option.splits)

subsection \<open>Login\<close>

text \<open>
  C8. Take two login attempts against the same store: one whose email matches no user, one
  whose email matches a user but whose password the hash comparison rejects. Both are
  answered with the same failure, an AuthError of status 400 with the message
  ``Invalid credentials'', so the answer does not tell whether the email is known.
\<close>

theorem login_same_failure:
  assumes "findOne (\<lambda>u. u_email u = unknownEmail) (users s) = None"
    and "findOne (\<lambda>u. u_email u = knownEmail) (users s) = Some (uid, usr)"
    and "\<not> compare wrongPassword (u_password usr)"
  shows "login compare sign unknownEmail anyPassword s =
           Inl (Failure AuthError 400 ''Invalid credentials'') \<and>
         login compare sign knownEmail wrongPassword s =
           login compare sign unknownEmail anyPassword s"
  using assms by (simp add: login_def)

theorem login_same_failure_witness:
  "login plain_compare plain_sign ''nobody@example.com'' ''secret'' shop =
     Inl (Failure AuthError 400 ''Invalid credentials'') \<and>
   login plain_compare plain_sign ''asha@example.com'' ''guess'' shop =
     login plain_compare plain_sign ''nobody@example.com'' ''secret'' shop"
  by (rule login_same_failure [where uid = 7 and usr = asha])
     (simp_all add: findOne_def shop_def asha_def plain_compare_def)

subsection \<open>Product update\<close>

text \<open>
  C6. \<open>updateProduct\<close> on an id that is not in the catalog answers NotFoundError (404) and
  leaves the store as it was. On a stored product it succeeds: each of name, price,
  description, category and stock takes the supplied value when one is supplied and keeps
  its old value otherwise; assignedAdmin, reviews, averageRating, totalReviews and the two
  timestamps are unchanged, and so are all other products, the users and the orders.
\<close>

theorem updateProduct_frame:
  "(findById (products s) pid = None \<longrightarrow>
      updateProduct pid name price description category stock s =
        (Inl (Failure NotFoundError 404 ''Product not found''), s)) \<and>
   (\<forall>p. findById (products s) pid = Some p \<longrightarrow>
      (\<exists>p' s'. updateProduct pid name price description category stock s =
                 (Inr (200, ''Product updated successfully'', p'), s') \<and>
         findById (products s') pid = Some p' \<and>
         (\<forall>i. i \<noteq> pid \<longrightarrow> findById (products s') i = findById (products s) i) \<and>
         users s' = users s \<and> orders s' = orders s \<and>
         p_name p' = (case name of None \<Rightarrow> p_name p | Some v \<Rightarrow> v) \<and>
         p_price p' = (case price of None \<Rightarrow> p_price p | Some v \<Rightarrow> v) \<and>
         p_description p' = (case description of None \<Rightarrow> p_description p | Some v \<Rightarrow> Some v) \<and>
         p_category p' = (case category of None \<Rightarrow> p_category p | Some v \<Rightarrow> Some v) \<and>
         p_stock p' = (case stock of None \<Rightarrow> p_stock p | Some v \<Rightarrow> v) \<and>
         p_assignedAdmin p' = p_assignedAdmin p \<and> p_reviews p' = p_reviews p \<and>
         p_averageRating p' = p_averageRating p \<and> p_totalReviews p' = p_totalReviews p \<and>
         p_createdAt p' = p_createdAt p \<and> p_updatedAt p' = p_updatedAt p))"
  by (auto simp: updateProduct_def Let_def findById_updateById updateById_absent keep_def
      keep_opt_def split: option.splits)

theorem updateProduct_frame_witness:
  "updateProduct 9 (Some ''Stool'') None None None None shop =
     (Inl (Failure NotFoundError 404 ''Product not found''), shop) \<and>
   (\<exists>p' s'. updateProduct 2 None (Some 50) None None None shop =
               (Inr (200, ''Product updated successfully'', p'), s') \<and>
      findById (products s') 2 = Some p' \<and> findById (products s') 1 = Some lamp \<and>
      p_price p' = 50 \<and> p_name p' = ''Chair'' \<and> p_stock p' = 3 \<and>
      p_assignedAdmin p' = Some 8 \<and> p_reviews p' = [])"
proof -
  have absent: "findById (products shop) 9 = None"
    by (simp add: shop_def findById_def)
  have present: "findById (products shop) 2 = Some chair"
    by (simp add: shop_def findById_def)
  have other: "findById (products shop) 1 = Some lamp"
    by (simp add: shop_def findById_def)
  from updateProduct_frame [of shop 9 "Some ''Stool''" None None None None] absent
  have a: "updateProduct 9 (Some ''Stool'') None None None None shop =
     (Inl (Failure NotFoundError 404 ''Product not found''), shop)" by blast
  from updateProduct_frame [of shop 2 None "Some 50" None None None] present
  obtain p' s' where u: "updateProduct 2 None (Some 50) None None None shop =
               (Inr (200, ''Product updated successfully'', p'), s')"
      "findById (products s') 2 = Some p'"
      "\<forall>i. i \<noteq> 2 \<longrightarrow> findById (products s') i = findById (products shop) i"
      "p_name p' = p_name chair" "p_price p' = 50" "p_stock p' = p_stock chair"
      "p_assignedAdmin p' = p_assignedAdmin chair" "p_reviews p' = p_reviews chair"
    by auto
  from u(3) other have "findById (products s') 1 = Some lamp" by simp
  with a u show ?thesis by (auto simp: chair_def)
qed


subsection \<open>Delivery tracking\<close>

text \<open>
  C5. A tracking update without a status (missing or empty) answers ValidationError (400);
  with a status but an order id that is not stored it answers NotFoundError (404); neither
  changes the store. On a stored order with a status present it succeeds: the tracking
  status is the supplied one, location and estimatedDelivery take the supplied value (and
  keep the old one when the request carries none), updatedAt is the current time, and
  orderStatus becomes ``delivered'' when the status is exactly ``delivered'' and ``shipped''
  for every other status, whatever it was before. Other orders, users and products are
  untouched.
\<close>

theorem updateDeliveryTracking_effect:
  "(falsy status \<longrightarrow>
      updateDeliveryTracking now orderId status location estimatedDelivery s =
        (Inl (Failure ValidationError 400 ''Order ID and status are required''), s)) \<and>
   (\<not> falsy status \<and> findById (orders s) oid = None \<longrightarrow>
      updateDeliveryTracking now (Some oid) status location estimatedDelivery s =
        (Inl (Failure NotFoundError 404 ''Order not found''), s)) \<and>
   (\<forall>st od. status = Some st \<and> st \<noteq> [] \<and> findById (orders s) oid = Some od \<longrightarrow>
      (\<exists>od' s'. updateDeliveryTracking now (Some oid) status location estimatedDelivery s =
                  (Inr (200, ''Delivery tracking updated successfully'', od'), s') \<and>
         findById (orders s') oid = Some od' \<and>
         dt_status (o_deliveryTracking od') = st \<and>
         dt_location (o_deliveryTracking od') =
           (case location of None \<Rightarrow> dt_location (o_deliveryTracking od) | Some l \<Rightarrow> l) \<and>
         dt_estimatedDelivery (o_deliveryTracking od') =
           (case estimatedDelivery of None \<Rightarrow> dt_estimatedDelivery (o_deliveryTracking od)
            | Some d \<Rightarrow> Some d) \<and>
         dt_updatedAt (o_deliveryTracking od') = now \<and>
         o_orderStatus od' = (if st = ''delivered'' then ''delivered'' else ''shipped'') \<and>
         (\<forall>i. i \<noteq> oid \<longrightarrow> findById (orders s') i = findById (orders s) i) \<and>
         users s' = users s \<and> products s' = products s))"
  by (auto simp: updateDeliveryTracking_def Let_def findById_updateById updateById_absent
      keep_def keep_opt_def falsy_def str_of_def split: option.splits)

theorem updateDeliveryTracking_effect_witness:
  "updateDeliveryTracking 9 (Some 3) None (Some ''Pune'') None shop =
     (Inl (Failure ValidationError 400 ''Order ID and status are required''), shop) \<and>
   updateDeliveryTracking 9 (Some 4) (Some ''in_transit'') None None shop =
     (Inl (Failure NotFoundError 404 ''Order not found''), shop) \<and>
   (\<exists>od' s'. updateDeliveryTracking 9 (Some 3) (Some ''in_transit'') (Some ''Pune'') None shop =
                (Inr (200, ''Delivery tracking updated successfully'', od'), s') \<and>
      findById (orders s') 3 = Some od' \<and>
      dt_status (o_deliveryTracking od') = ''in_transit'' \<and>
      dt_location (o_deliveryTracking od') = ''Pune'' \<and>
      dt_estimatedDelivery (o_deliveryTracking od') = None \<and>
      dt_updatedAt (o_deliveryTracking od') = 9 \<and> o_orderStatus od' = ''shipped'')"
proof -
  have present: "findById (orders shop) 3 = Some lamp_order"
    by (simp add: shop_def findById_def)
  have absent: "findById (orders shop) 4 = None"
    by (simp add: shop_def findById_def)
  have a: "updateDeliveryTracking 9 (Some 3) None (Some ''Pune'') None shop =
     (Inl (Failure ValidationError 400 ''Order ID and status are required''), shop)"
    using updateDeliveryTracking_effect [of None 9 "Some 3" "Some ''Pune''" None shop]
    by (simp add: falsy_def)
  have b: "updateDeliveryTracking 9 (Some 4) (Some ''in_transit'') None None shop =
     (Inl (Failure NotFoundError 404 ''Order not found''), shop)"
    using updateDeliveryTracking_effect [of "Some ''in_transit''" 9 "Some 4" None None shop 4] absent
    by (simp add: falsy_def)
  have c: "\<exists>od' s'. updateDeliveryTracking 9 (Some 3) (Some ''in_transit'') (Some ''Pune'') None shop =
                (Inr (200, ''Delivery tracking updated successfully'', od'), s') \<and>
      findById (orders s') 3 = Some od' \<and>
      dt_status (o_deliveryTracking od') = ''in_transit'' \<and>
      dt_location (o_deliveryTracking od') = ''Pune'' \<and>
      dt_estimatedDelivery (o_deliveryTracking od') = None \<and>
      dt_updatedAt (o_deliveryTracking od') = 9 \<and> o_orderStatus od' = ''shipped''"
    using updateDeliveryTracking_effect [of "Some ''in_transit''" 9 "Some 3" "Some ''Pune''" None shop 3]
      present
    by (simp add: lamp_order_def) blast
  from a b c show ?thesis by blast
qed

subsection \<open>Cart\<close>

text \<open>
  C7. For a stored user and any product id, \<open>removeFromCart\<close> succeeds and leaves in the
  cart exactly the lines whose productId differs, in their order. When no line matches,
  the store is unchanged. Running the same request again on the resulting store gives the
  same reply and the same store: the operation is idempotent.
\<close>

theorem removeFromCart_removes_matching:
  assumes "resolve reqUser bodyUserId queryUserId = Some uid"
    and "findById (users s) uid = Some u"
  shows "\<exists>u' s'. removeFromCart reqUser pid bodyUserId queryUserId s =
                  (Inr (200, ''Product removed from cart successfully'', Some u'), s') \<and>
           findById (users s') uid = Some u' \<and>
           u_cart u' = filter (\<lambda>ci. ci_productId ci \<noteq> pid) (u_cart u) \<and>
           (pid \<notin> ci_productId ` set (u_cart u) \<longrightarrow> s' = s) \<and>
           removeFromCart reqUser pid bodyUserId queryUserId s' =
             (Inr (200, ''Product removed from cart successfully'', Some u'), s')"
proof -
  let ?f = "\<lambda>u. u\<lparr>u_cart := filter (\<lambda>ci. ci_productId ci \<noteq> pid) (u_cart u)\<rparr>"
  let ?us = "updateById uid ?f (users s)"
  let ?s' = "s\<lparr>users := ?us\<rparr>"
  have r: "removeFromCart reqUser pid bodyUserId queryUserId s =
             (Inr (200, ''Product removed from cart successfully'', Some (?f u)), ?s')"
    using assms by (simp add: removeFromCart_def Let_def findById_updateById)
  have found: "findById (users ?s') uid = Some (?f u)"
    using assms by (simp add: findById_updateById)
  have idem: "?f (?f u) = ?f u" by simp
  have again: "updateById uid ?f ?us = ?us"
    using found idem by (intro updateById_fixed [where d = "?f u"]) simp_all
  have twice: "removeFromCart reqUser pid bodyUserId queryUserId ?s' =
             (Inr (200, ''Product removed from cart successfully'', Some (?f u)), ?s')"
    using assms(1) found again by (simp add: removeFromCart_def Let_def)
  have same: "pid \<notin> ci_productId ` set (u_cart u) \<longrightarrow> ?s' = s"
  proof
    assume "pid \<notin> ci_productId ` set (u_cart u)"
    then have "filter (\<lambda>ci. ci_productId ci \<noteq> pid) (u_cart u) = u_cart u"
      by (intro filter_True) auto
    then have "?f u = u" by simp
    with assms(2) have "?us = users s" by (intro updateById_fixed [where d = u]) simp_all
    then show "?s' = s" by simp
  qed
  from r found twice same show ?thesis by auto
qed

theorem removeFromCart_removes_matching_witness:
  "(\<exists>u' s'. removeFromCart None 2 (Some 7) None shop =
               (Inr (200, ''Product removed from cart successfully'', Some u'), s') \<and>
      findById (users s') 7 = Some u' \<and>
      u_cart u' = [\<lparr>ci_productId = 1, ci_quantity = 1, ci_addedAt = 3\<rparr>] \<and>
      removeFromCart None 2 (Some 7) None s' =
        (Inr (200, ''Product removed from cart successfully'', Some u'), s')) \<and>
   removeFromCart None 5 (Some 7) None shop =
     (Inr (200, ''Product removed from cart successfully'', Some asha), shop)"
proof -
  have a: "resolve None (Some 7) None = Some 7" by (simp add: resolve_def)
  have b: "findById (users shop) 7 = Some asha" by (simp add: shop_def findById_def)
  have present: "\<exists>u' s'. removeFromCart None 2 (Some 7) None shop =
               (Inr (200, ''Product removed from cart successfully'', Some u'), s') \<and>
      findById (users s') 7 = Some u' \<and>
      u_cart u' = [\<lparr>ci_productId = 1, ci_quantity = 1, ci_addedAt = 3\<rparr>] \<and>
      removeFromCart None 2 (Some 7) None s' =
        (Inr (200, ''Product removed from cart successfully'', Some u'), s')"
    using removeFromCart_removes_matching [OF a b, of 2] by (simp add: asha_def)
  have none: "5 \<notin> ci_productId ` set (u_cart asha)" by (simp add: asha_def)
  from removeFromCart_removes_matching [OF a b, of 5] none
  obtain u' where "removeFromCart None 5 (Some 7) None shop =
      (Inr (200, ''Product removed from cart successfully'', Some u'), shop)"
    "findById (users shop) 7 = Some u'"
    by auto
  with b have "removeFromCart None 5 (Some 7) None shop =
     (Inr (200, ''Product removed from cart successfully'', Some asha), shop)" by simp
  with present show ?thesis by blast
qed

text \<open>
  C9. When the resolved user id is not a stored user, \<open>removeFromCart\<close> and (for a stored
  product and a non-zero quantity) \<open>addToCart\<close> do not answer NotFoundError: they answer
  200 with their success message and a null user, and the store, hence every stored cart,
  is unchanged.
\<close>

theorem cart_unknown_user:
  assumes "resolve reqUser bodyUserId queryUserId = Some uid"
    and "findById (users s) uid = None"
  shows "removeFromCart reqUser pid bodyUserId queryUserId s =
           (Inr (200, ''Product removed from cart successfully'', None), s) \<and>
         (findById (products s) pid \<noteq> None \<and> quantity \<noteq> 0 \<longrightarrow>
            addToCart now reqUser (Some pid) (Some quantity) bodyUserId queryUserId s =
              (Inr (200, ''Product added to cart successfully'', None), s))"
  using assms
  by (auto simp: removeFromCart_def addToCart_def Let_def updateById_absent falsy_num_def)

theorem cart_unknown_user_witness:
  "removeFromCart None 1 (Some 8) None shop =
     (Inr (200, ''Product removed from cart successfully'', None), shop) \<and>
   addToCart 6 None (Some 1) (Some 2) None (Some 8) shop =
     (Inr (200, ''Product added to cart successfully'', None), shop)"
proof -
  have a: "resolve None (Some 8) None = Some 8" "resolve None None (Some 8) = Some 8"
    by (simp_all add: resolve_def)
  have b: "findById (users shop) 8 = None" by (simp add: shop_def findById_def)
  have c: "findById (products shop) 1 \<noteq> None" by (simp add: shop_def findById_def)
  from cart_unknown_user [OF a(1) b, of 1 0 0] cart_unknown_user [OF a(2) b, of 1 2 6] c
  show ?thesis by simp
qed


subsection \<open>Order cancellation\<close>

lemma findById_restore_stock:
  "findById (restore_stock lines ps) pid =
     map_option (\<lambda>p. p\<lparr>p_stock := p_stock p + ordered pid lines\<rparr>) (findById ps pid)"
proof (induction lines arbitrary: ps)
  case Nil
  show ?case by (simp add: ordered_def option.map_ident)
next
  case (Cons l lines)
  show ?case
    by (cases "findById ps pid")
       (auto simp: Cons.IH findById_updateById ordered_def algebra_simps)
qed

lemma listUserOrders_ids:
  "fst ` set (listUserOrders u s) \<subseteq> fst ` set (orders s)"
  by (auto simp: listUserOrders_def)

lemma deleteById_ids: "i \<notin> fst ` set (deleteById i c)"
  by (auto simp: deleteById_def)

text \<open>
  C4. Cancelling a stored order that is not ``delivered'', by its owner or by an admin,
  succeeds: the order record is deleted, so it is no longer found by id nor listed by
  \<open>listUserOrders\<close> for any user; every product's stock grows by the quantity the order's
  lines name for it; other orders and the users are unchanged. Cancelling a ``delivered''
  order (by its owner or an admin) answers ConflictError, and a requester who is neither
  the owner nor an admin gets ForbiddenError; both leave the whole store, stocks and order
  included, as it was.
\<close>

theorem cancelOrder_effect:
  "(\<forall>od. findById (orders s) oid = Some od \<and> (o_userId od = uid \<or> role = ''admin'') \<and>
         o_orderStatus od \<noteq> ''delivered'' \<longrightarrow>
      (\<exists>s'. cancelOrder uid role oid s =
               (Inr (200, ''Order cancelled/deleted successfully'', Some od), s') \<and>
         findById (orders s') oid = None \<and>
         (\<forall>u. oid \<notin> fst ` set (listUserOrders u s')) \<and>
         (\<forall>i. i \<noteq> oid \<longrightarrow> findById (orders s') i = findById (orders s) i) \<and>
         (\<forall>pid. findById (products s') pid =
            map_option (\<lambda>p. p\<lparr>p_stock := p_stock p + ordered pid (o_items od)\<rparr>)
              (findById (products s) pid)) \<and>
         users s' = users s)) \<and>
   (\<forall>od. findById (orders s) oid = Some od \<and> (o_userId od = uid \<or> role = ''admin'') \<and>
         o_orderStatus od = ''delivered'' \<longrightarrow>
      cancelOrder uid role oid s =
        (Inl (Failure ConflictError 400 ''Cannot cancel a delivered order''), s)) \<and>
   (\<forall>od. findById (orders s) oid = Some od \<and> o_userId od \<noteq> uid \<and> role \<noteq> ''admin'' \<longrightarrow>
      cancelOrder uid role oid s =
        (Inl (Failure ForbiddenError 403 ''Unauthorized to delete this order''), s))"
proof (intro conjI allI impI)
  fix od
  assume h: "findById (orders s) oid = Some od \<and> (o_userId od = uid \<or> role = ''admin'') \<and>
         o_orderStatus od \<noteq> ''delivered''"
  let ?s' = "s\<lparr>products := restore_stock (o_items od) (products s),
               orders := deleteById oid (orders s)\<rparr>"
  have r: "cancelOrder uid role oid s =
             (Inr (200, ''Order cancelled/deleted successfully'', Some od), ?s')"
    using h by (auto simp: cancelOrder_def Let_def)
  have gone: "\<forall>u. oid \<notin> fst ` set (listUserOrders u ?s')"
    using listUserOrders_ids [of _ ?s'] deleteById_ids [of oid "orders s"] by auto
  show "\<exists>s'. cancelOrder uid role oid s =
               (Inr (200, ''Order cancelled/deleted successfully'', Some od), s') \<and>
         findById (orders s') oid = None \<and>
         (\<forall>u. oid \<notin> fst ` set (listUserOrders u s')) \<and>
         (\<forall>i. i \<noteq> oid \<longrightarrow> findById (orders s') i = findById (orders s) i) \<and>
         (\<forall>pid. findById (products s') pid =
            map_option (\<lambda>p. p\<lparr>p_stock := p_stock p + ordered pid (o_items od)\<rparr>)
              (findById (products s) pid)) \<and>
         users s' = users s"
    using r gone
    by (intro exI [of _ ?s']) (simp add: findById_deleteById findById_restore_stock)
next
  fix od
  assume "findById (orders s) oid = Some od \<and> (o_userId od = uid \<or> role = ''admin'') \<and>
         o_orderStatus od = ''delivered''"
  then show "cancelOrder uid role oid s =
        (Inl (Failure ConflictError 400 ''Cannot cancel a delivered order''), s)"
    by (auto simp: cancelOrder_def)
next
  fix od
  assume "findById (orders s) oid = Some od \<and> o_userId od \<noteq> uid \<and> role \<noteq> ''admin''"
  then show "cancelOrder uid role oid s =
        (Inl (Failure ForbiddenError 403 ''Unauthorized to delete this order''), s)"
    by (auto simp: cancelOrder_def)
qed

theorem cancelOrder_effect_witness:
  "(\<exists>s'. cancelOrder 7 ''user'' 3 shop =
            (Inr (200, ''Order cancelled/deleted successfully'', Some lamp_order), s') \<and>
      findById (orders s') 3 = None \<and> 3 \<notin> fst ` set (listUserOrders 7 s') \<and>
      map_option p_stock (findById (products s') 1) = Some 7 \<and>
      map_option p_stock (findById (products s') 2) = Some 3) \<and>
   cancelOrder 7 ''user'' 3 shop_delivered =
     (Inl (Failure ConflictError 400 ''Cannot cancel a delivered order''), shop_delivered) \<and>
   cancelOrder 8 ''user'' 3 shop =
     (Inl (Failure ForbiddenError 403 ''Unauthorized to delete this order''), shop)"
proof -
  have o3: "findById (orders shop) 3 = Some lamp_order"
    by (simp add: shop_def findById_def)
  have o3d: "findById (orders shop_delivered) 3 = Some (lamp_order\<lparr>o_orderStatus := ''delivered''\<rparr>)"
    by (simp add: shop_delivered_def findById_def)
  have p1: "findById (products shop) 1 = Some lamp" and p2: "findById (products shop) 2 = Some chair"
    by (simp_all add: shop_def findById_def)
  have q: "ordered 1 (o_items lamp_order) = 2" "ordered 2 (o_items lamp_order) = 0"
    by (simp_all add: ordered_def lamp_order_def)
  have own: "o_userId lamp_order = 7" "o_orderStatus lamp_order = ''pending''"
    by (simp_all add: lamp_order_def)
  from cancelOrder_effect [of shop 3 7 "''user''"] o3 own
  obtain s' where s': "cancelOrder 7 ''user'' 3 shop =
            (Inr (200, ''Order cancelled/deleted successfully'', Some lamp_order), s')"
     "findById (orders s') 3 = None" "\<forall>u. 3 \<notin> fst ` set (listUserOrders u s')"
     "\<forall>pid. findById (products s') pid =
            map_option (\<lambda>p. p\<lparr>p_stock := p_stock p + ordered pid (o_items lamp_order)\<rparr>)
              (findById (products shop) pid)"
    by auto
  have a: "map_option p_stock (findById (products s') 1) = Some 7"
      "map_option p_stock (findById (products s') 2) = Some 3"
    using s'(4) p1 p2 q by (simp_all add: lamp_def chair_def)
  have b: "cancelOrder 7 ''user'' 3 shop_delivered =
     (Inl (Failure ConflictError 400 ''Cannot cancel a delivered order''), shop_delivered)"
    using cancelOrder_effect [of shop_delivered 3 7 "''user''"] o3d own by simp
  have c: "cancelOrder 8 ''user'' 3 shop =
     (Inl (Failure ForbiddenError 403 ''Unauthorized to delete this order''), shop)"
    using cancelOrder_effect [of shop 3 8 "''user''"] o3 own by simp
  from s'(1-3) a b c show ?thesis by blast
qed


subsection \<open>Order placement\<close>

lemma requested_Cons:
  "requested i ((pid, q) # rest) = (if pid = i then q else 0) + requested i rest"
  by (simp add: requested_def)



lemma process_items_stock:
  "process_items its t acc ps = (Inr (t', ls), ps') \<Longrightarrow>
   findById ps' i = map_option (\<lambda>p. p\<lparr>p_stock := p_stock p - requested i its\<rparr>) (findById ps i)"
proof (induction its arbitrary: t acc ps)
  case Nil
  then show ?case by (simp add: requested_def option.map_ident)
next
  case (Cons item rest)
  obtain pid q where item: "item = (pid, q)" by (cases item)
  from Cons.prems obtain p where p: "findById ps pid = Some p" "\<not> p_stock p < q"
    by (auto simp: item split: option.splits if_splits)
  let ?ps1 = "updateById pid (\<lambda>p. p\<lparr>p_stock := p_stock p - q\<rparr>) ps"
  from Cons.prems p obtain t1 acc1 where "process_items rest t1 acc1 ?ps1 = (Inr (t', ls), ps')"
    by (auto simp: item Let_def)
  from Cons.IH [OF this]
  have "findById ps' i =
          map_option (\<lambda>p. p\<lparr>p_stock := p_stock p - requested i rest\<rparr>) (findById ?ps1 i)" .
  then show ?case
    by (cases "findById ps i") (auto simp: item findById_updateById requested_Cons algebra_simps)
qed



lemma process_items_append:
  "process_items (pre @ post) t acc ps =
     (case process_items pre t acc ps of
        (Inl failed, ps1) \<Rightarrow> (Inl failed, ps1)
      | (Inr (t1, acc1), ps1) \<Rightarrow> process_items post t1 acc1 ps1)"
  by (induction pre arbitrary: t acc ps) (auto simp: Let_def split: option.splits)






text \<open>
  C2. Let the items before the N-th go through the loop, and let the N-th ask for more
  than its product's stock at that moment. The placement answers ConflictError (400,
  ``Insufficient stock for'' and the product's name). The store it leaves differs from the
  initial one only in the products: users (so the cart) and orders (so no new record) are
  as before, and each product's stock is its initial stock less the quantities the earlier
  items asked of it. The N-th item's own quantity is not subtracted, and nothing is
  restored.
\<close>

theorem placeOrder_partial_failure:
  assumes items: "items = Some (earlier @ (pid, q) # later)"
    and body: "\<not> falsy deliveryAddress" "\<not> falsy paymentMethod"
    and earlier: "process_items earlier 0 [] (products s) = (Inr (t, ls), ps)"
    and current: "findById ps pid = Some p" "p_stock p < q"
  shows "placeOrder now uid items deliveryAddress paymentMethod s =
           (Inl (Failure ConflictError 400 (''Insufficient stock for '' @ p_name p)),
            s\<lparr>products := ps\<rparr>) \<and>
         (\<forall>i. findById ps i =
            map_option (\<lambda>p. p\<lparr>p_stock := p_stock p - requested i earlier\<rparr>)
              (findById (products s) i))"
proof -
  have "process_items (earlier @ (pid, q) # later) 0 [] (products s) =
          (Inl (Failure ConflictError 400 (''Insufficient stock for '' @ p_name p)), ps)"
    using earlier current by (simp add: process_items_append)
  then have "placeOrder now uid items deliveryAddress paymentMethod s =
           (Inl (Failure ConflictError 400 (''Insufficient stock for '' @ p_name p)),
            s\<lparr>products := ps\<rparr>)"
    using items body by (simp add: placeOrder_def)
  moreover have "\<forall>i. findById ps i =
            map_option (\<lambda>p. p\<lparr>p_stock := p_stock p - requested i earlier\<rparr>)
              (findById (products s) i)"
    using process_items_stock [OF earlier] by blast
  ultimately show ?thesis by blast
qed

theorem placeOrder_partial_failure_witness:
  "\<exists>ps. placeOrder 9 7 (Some [(1, 2), (2, 4), (1, 1)]) (Some ''12 Hill Road'') (Some ''upi'') shop =
           (Inl (Failure ConflictError 400 ''Insufficient stock for Chair''),
            shop\<lparr>products := ps\<rparr>) \<and>
         map_option p_stock (findById ps 1) = Some 3 \<and>
         map_option p_stock (findById ps 2) = Some 3"
proof -
  let ?ps = "[(1, lamp\<lparr>p_stock := 3\<rparr>), (2, chair)]"
  have e: "process_items [(1, 2)] 0 [] (products shop) =
             (Inr (20, [\<lparr>oi_productId = 1, oi_productName = ''Lamp'', oi_quantity = 2,
                         oi_price = 10, oi_subtotal = 20\<rparr>]), ?ps)"
    by (simp add: shop_def findById_def lamp_def Let_def)
  have c: "findById ?ps 2 = Some chair" "p_stock chair < 4"
    by (simp_all add: findById_def chair_def)
  have b: "\<not> falsy (Some ''12 Hill Road'')" "\<not> falsy (Some ''upi'')"
    by (simp_all add: falsy_def)
  have i: "Some [(1, 2), (2, 4), (1, 1)] = Some ([(1, 2)] @ (2, 4) # [(1, 1)])" by simp
  from placeOrder_partial_failure [OF i b e c, of 9 7]
  show ?thesis
    by (intro exI [of _ ?ps]) (simp add: chair_def findById_def lamp_def)
qed


subsection \<open>Reviews and the rating aggregate\<close>

text \<open>
  \<open>toFixed2\<close> returns a value within half a hundredth of its argument, and maps the
  interval from 1 to 5 into itself; the mean of ratings between 1 and 5 lies between 1
  and 5.
\<close>

lemma foldl_ratings:
  "foldl (\<lambda>sum rv. sum + rv_rating rv) a rs = a + sum_list (map rv_rating rs)"
  by (induction rs arbitrary: a) (simp_all add: add.assoc)


lemma toFixed2_bounds:
  assumes "1 \<le> x" "x \<le> 5"
  shows "1 \<le> toFixed2 x \<and> toFixed2 x \<le> 5"
proof -
  have pos: "\<not> x < 0" using assms by simp
  have "(100::rat) \<le> x * 100 + 1 / 2" using assms by simp
  then have "(100::int) \<le> \<lfloor>x * 100 + 1 / 2\<rfloor>" by (simp add: le_floor_iff)
  then have lo: "(100::rat) \<le> of_int \<lfloor>x * 100 + 1 / 2\<rfloor>" by (simp add: le_floor_iff)
  have "x * 100 + 1 / 2 < 501" using assms by simp
  then have "\<lfloor>x * 100 + 1 / 2\<rfloor> < 501" by (simp add: floor_less_iff)
  then have "\<lfloor>x * 100 + 1 / 2\<rfloor> \<le> 500" by simp
  then have hi: "(of_int \<lfloor>x * 100 + 1 / 2\<rfloor> :: rat) \<le> 500" by (simp add: floor_less_iff)
  from lo hi pos show ?thesis by (simp add: toFixed2_def)
qed

lemma toFixed2_nearest: "\<bar>toFixed2 x - x\<bar> \<le> 1 / 200"
proof -
  have *: "\<bar>of_int \<lfloor>y * 100 + 1 / 2\<rfloor> / 100 - y\<bar> \<le> 1 / 200" for y :: rat
  proof -
    define n :: rat where "n = of_int \<lfloor>y * 100 + 1 / 2\<rfloor>"
    have "n \<le> y * 100 + 1 / 2" and "y * 100 + 1 / 2 < n + 1"
      unfolding n_def using floor_correct [of "y * 100 + 1 / 2"] by simp_all
    then have "n / 100 - y \<le> 1 / 200" and "- (n / 100 - y) \<le> 1 / 200" by simp_all
    then have "\<bar>n / 100 - y\<bar> \<le> 1 / 200" by (rule abs_leI)
    then show ?thesis by (simp add: n_def)
  qed
  show ?thesis
  proof (cases "x < 0")
    case True
    then have "toFixed2 x - x = - (of_int \<lfloor>(- x) * 100 + 1 / 2\<rfloor> / 100 - (- x))"
      by (simp add: toFixed2_def)
    then have "\<bar>toFixed2 x - x\<bar> = \<bar>of_int \<lfloor>(- x) * 100 + 1 / 2\<rfloor> / 100 - (- x)\<bar>"
      by (simp only: abs_minus_cancel)
    with * [of "- x"] show ?thesis by simp
  next
    case False
    with * [of x] show ?thesis by (simp add: toFixed2_def)
  qed
qed

lemma sum_list_bounds:
  "\<forall>r\<in>set rs. a \<le> r \<and> r \<le> b \<Longrightarrow>
   of_nat (length rs) * a \<le> sum_list rs \<and> sum_list rs \<le> of_nat (length rs) * (b :: rat)"
  by (induction rs) (auto simp: algebra_simps)

lemma mean_bounds:
  assumes "rs \<noteq> []" "\<forall>r\<in>set rs. a \<le> r \<and> r \<le> b"
  shows "a \<le> mean rs \<and> mean rs \<le> b"
proof -
  have n: "(0::rat) < of_nat (length rs)" using assms(1) by simp
  from sum_list_bounds [OF assms(2)] n show ?thesis
    by (simp add: mean_def pos_le_divide_eq pos_divide_le_eq mult.commute)
qed







subsection \<open>The rating bound in reachable stores\<close>

text \<open>
  Every route keeps \<open>rating_inv\<close>: the routes other than \<open>postReview\<close> either leave the
  products alone, add a product without reviews, or change fields other than reviews,
  averageRating and totalReviews; \<open>postReview\<close> appends a rating between 1 and 5 and, when
  it saves, stores the rounded mean of ratings that all lie between 1 and 5.
\<close>

lemma rating_inv_same: "products s' = products s \<Longrightarrow> rating_inv s \<Longrightarrow> rating_inv s'"
  by (simp add: rating_inv_def)

lemma rating_inv_update:
  assumes "rating_inv s"
    and "products s' = updateById pid f (products s)"
    and "\<And>p. findById (products s) pid = Some p \<Longrightarrow> product_ok p \<Longrightarrow> product_ok (f p)"
  shows "rating_inv s'"
  using assms by (auto simp: rating_inv_def findById_updateById split: if_splits)

lemma rating_inv_stock:
  assumes "rating_inv s"
    and "\<And>i. \<exists>k. findById (products s') i =
                  map_option (\<lambda>p. p\<lparr>p_stock := k\<rparr>) (findById (products s) i)"
  shows "rating_inv s'"
  unfolding rating_inv_def
proof (intro allI impI)
  fix i p' assume "findById (products s') i = Some p'"
  with assms(2) [of i] obtain k p where "findById (products s) i = Some p" "p' = p\<lparr>p_stock := k\<rparr>"
    by (cases "findById (products s) i") auto
  with assms(1) show "product_ok p'" by (auto simp: rating_inv_def product_ok_def)
qed

lemma process_items_only_stock:
  "process_items its t acc ps = (res, ps') \<Longrightarrow>
   \<exists>k. findById ps' i = map_option (\<lambda>p. p\<lparr>p_stock := k\<rparr>) (findById ps i)"
proof (induction its arbitrary: t acc ps)
  case Nil
  then have "ps' = ps" by simp
  then show ?case
    by (cases "findById ps i") (auto intro: exI [of _ "p_stock (the (findById ps i))"])
next
  case (Cons item rest)
  obtain pid q where item: "item = (pid, q)" by (cases item)
  show ?case
  proof (cases "\<exists>p. findById ps pid = Some p \<and> \<not> p_stock p < q")
    case False
    with Cons.prems have "ps' = ps" by (auto simp: item split: option.splits if_splits)
    then show ?thesis
      by (cases "findById ps i") (auto intro: exI [of _ "p_stock (the (findById ps i))"])
  next
    case True
    then obtain p where p: "findById ps pid = Some p" "\<not> p_stock p < q" by blast
    let ?ps1 = "updateById pid (\<lambda>p. p\<lparr>p_stock := p_stock p - q\<rparr>) ps"
    from Cons.prems p obtain t1 acc1 where "process_items rest t1 acc1 ?ps1 = (res, ps')"
      by (auto simp: item Let_def)
    from Cons.IH [OF this] obtain k where
      "findById ps' i = map_option (\<lambda>p. p\<lparr>p_stock := k\<rparr>) (findById ?ps1 i)" by blast
    then show ?thesis
      by (cases "findById ps i") (auto simp: findById_updateById split: if_splits)
  qed
qed

lemma signup_products:
  "products (snd (signup hash now name email password phone role s)) = products s"
  by (simp add: signup_def Let_def split: option.splits)

lemma updateProfile_products:
  "products (snd (updateProfile userId name email phone address s)) = products s"
  by (simp add: updateProfile_def Let_def split: option.splits)

lemma addToCart_products:
  "products (snd (addToCart now reqUser productId quantity bodyUserId queryUserId s)) = products s"
  by (simp add: addToCart_def Let_def split: option.splits)

lemma removeFromCart_products:
  "products (snd (removeFromCart reqUser pid bodyUserId queryUserId s)) = products s"
  by (simp add: removeFromCart_def Let_def split: option.splits)

lemma updateDeliveryTracking_products:
  "products (snd (updateDeliveryTracking now orderId status location estimatedDelivery s)) =
     products s"
  by (simp add: updateDeliveryTracking_def Let_def split: option.splits)

lemma addProduct_inv:
  "rating_inv s \<Longrightarrow> rating_inv (snd (addProduct now name price description category stock s))"
  by (auto simp: addProduct_def Let_def rating_inv_def findById_create product_ok_def
      split: if_splits)

lemma assignAdmin_inv: "rating_inv s \<Longrightarrow> rating_inv (snd (assignAdmin productId adminId s))"
proof (cases "\<exists>pid aid. productId = Some pid \<and> adminId = Some aid")
  case False
  assume "rating_inv s"
  with False show ?thesis by (auto simp: assignAdmin_def split: option.splits)
next
  case True
  assume inv: "rating_inv s"
  from True obtain pid aid where ids: "productId = Some pid" "adminId = Some aid" by blast
  have "products (snd (assignAdmin productId adminId s)) =
          updateById pid (\<lambda>p. p\<lparr>p_assignedAdmin := Some aid\<rparr>) (products s)"
    by (simp add: assignAdmin_def ids Let_def split: option.splits)
  from rating_inv_update [OF inv this] show ?thesis by (simp add: product_ok_def)
qed

lemma updateProduct_inv:
  assumes inv: "rating_inv s"
  shows "rating_inv (snd (updateProduct pid name price description category stock s))"
proof -
  have "products (snd (updateProduct pid name price description category stock s)) =
          updateById pid
            (\<lambda>p. p\<lparr>p_name := keep name (p_name p), p_price := keep price (p_price p),
                   p_description := keep_opt description (p_description p),
                   p_category := keep_opt category (p_category p),
                   p_stock := keep stock (p_stock p)\<rparr>) (products s)"
    by (simp add: updateProduct_def Let_def split: option.splits)
  from rating_inv_update [OF inv this] show ?thesis by (simp add: product_ok_def)
qed

lemma placeOrder_inv:
  assumes inv: "rating_inv s"
  shows "rating_inv (snd (placeOrder now userId items deliveryAddress paymentMethod s))"
proof -
  let ?s' = "snd (placeOrder now userId items deliveryAddress paymentMethod s)"
  obtain res ps where run:
    "process_items (case items of None \<Rightarrow> [] | Some its \<Rightarrow> its) 0 [] (products s) = (res, ps)"
    by (cases "process_items (case items of None \<Rightarrow> [] | Some its \<Rightarrow> its) 0 [] (products s)")
  have "products ?s' = products s \<or> products ?s' = ps"
    using run by (auto simp: placeOrder_def Let_def split: sum.splits prod.splits)
  then show ?thesis
  proof
    assume "products ?s' = products s"
    then show ?thesis using inv by (rule rating_inv_same)
  next
    assume eq: "products ?s' = ps"
    show ?thesis
      using inv process_items_only_stock [OF run] unfolding eq [symmetric]
      by (rule rating_inv_stock)
  qed
qed

lemma cancelOrder_inv:
  assumes inv: "rating_inv s"
  shows "rating_inv (snd (cancelOrder userId role orderId s))"
proof -
  let ?s' = "snd (cancelOrder userId role orderId s)"
  have "products ?s' = products s \<or>
        (\<exists>lines. products ?s' = restore_stock lines (products s))"
    by (auto simp: cancelOrder_def Let_def split: option.splits)
  then show ?thesis
  proof
    assume "products ?s' = products s"
    then show ?thesis using inv by (rule rating_inv_same)
  next
    assume "\<exists>lines. products ?s' = restore_stock lines (products s)"
    then obtain lines where eq: "products ?s' = restore_stock lines (products s)" by blast
    have "\<exists>k. findById (products ?s') i =
            map_option (\<lambda>p. p\<lparr>p_stock := k\<rparr>) (findById (products s) i)" for i
      unfolding eq findById_restore_stock
      by (cases "findById (products s) i") auto
    with inv show ?thesis by (rule rating_inv_stock)
  qed
qed

lemma postReview_inv:
  assumes inv: "rating_inv s"
  shows "rating_inv (snd (postReview now uid pid rating comment s))"
proof -
  let ?s' = "snd (postReview now uid pid rating comment s)"
  let ?r = "num_of rating"
  consider (reject) "falsy_num rating \<or> ?r < 1 \<or> ?r > 5"
    | (nouser) "\<not> (falsy_num rating \<or> ?r < 1 \<or> ?r > 5)" "findById (users s) uid = None"
    | (noproduct) usr where "\<not> (falsy_num rating \<or> ?r < 1 \<or> ?r > 5)"
        "findById (users s) uid = Some usr" "findById (products s) pid = None"
    | (found) usr p where "\<not> (falsy_num rating \<or> ?r < 1 \<or> ?r > 5)"
        "findById (users s) uid = Some usr" "findById (products s) pid = Some p"
    by (cases "findById (users s) uid"; cases "findById (products s) pid") auto
  then show ?thesis
  proof cases
    case reject
    then have "?s' = s" by (simp add: postReview_def)
    with inv show ?thesis by simp
  next
    case nouser
    then have "?s' = s" by (simp add: postReview_def)
    with inv show ?thesis by simp
  next
    case noproduct
    then have "products ?s' = products s"
      by (simp add: postReview_def Let_def findById_updateById updateById_absent)
    then show ?thesis using inv by (rule rating_inv_same)
  next
    case found
    let ?rv = "\<lparr>rv_userId = uid, rv_userName = u_name usr, rv_rating = ?r, rv_comment = comment,
                 rv_createdAt = now\<rparr>"
    let ?push = "\<lambda>p. p\<lparr>p_reviews := p_reviews p @ [?rv]\<rparr>"
    let ?ps = "updateById pid ?push (products s)"
    let ?saved = "(?push p)\<lparr>p_averageRating :=
                     toFixed2 (foldl (\<lambda>sum rv. sum + rv_rating rv) 0 (p_reviews (?push p)) /
                               of_nat (length (p_reviews (?push p)))),
                   p_totalReviews := length (p_reviews (?push p))\<rparr>"
    have r: "1 \<le> ?r" "?r \<le> 5" using found(1) by auto
    have okp: "product_ok p" using inv found(3) by (simp add: rating_inv_def)
    have push_ok: "product_ok (?push q)" if "product_ok q" for q
      using that r by (simp add: product_ok_def)
    have inv1: "rating_inv (s\<lparr>products := ?ps\<rparr>)"
      using inv by (rule rating_inv_update [where f = ?push and pid = pid]) (simp_all add: push_ok)
    have ratings: "\<forall>x\<in>set (map rv_rating (p_reviews (?push p))). 1 \<le> x \<and> x \<le> 5"
      using okp r by (auto simp: product_ok_def list_all_iff)
    have "map rv_rating (p_reviews (?push p)) \<noteq> []" by simp
    from mean_bounds [OF this ratings]
    have "1 \<le> mean (map rv_rating (p_reviews (?push p))) \<and>
          mean (map rv_rating (p_reviews (?push p))) \<le> 5" .
    then have "1 \<le> toFixed2 (mean (map rv_rating (p_reviews (?push p)))) \<and>
               toFixed2 (mean (map rv_rating (p_reviews (?push p)))) \<le> 5"
      using toFixed2_bounds by blast
    then have saved_ok: "product_ok ?saved"
      using push_ok [OF okp] by (simp add: product_ok_def mean_def foldl_ratings)
    have "products ?s' = ?ps \<or> products ?s' = updateById pid (\<lambda>p. ?saved) ?ps"
      using found by (simp add: postReview_def Let_def findById_updateById)
    then show ?thesis
    proof
      assume "products ?s' = ?ps"
      then have "products ?s' = products (s\<lparr>products := ?ps\<rparr>)" by simp
      then show ?thesis using inv1 by (rule rating_inv_same)
    next
      assume "products ?s' = updateById pid (\<lambda>p. ?saved) ?ps"
      then have "products ?s' = updateById pid (\<lambda>p. ?saved) (products (s\<lparr>products := ?ps\<rparr>))"
        by simp
      with inv1 show ?thesis
        by (rule rating_inv_update [where f = "\<lambda>p. ?saved" and pid = pid]) (rule saved_ok)
    qed
  qed
qed

lemma reachable_rating_inv: "reachable s \<Longrightarrow> rating_inv s"
proof (induction rule: reachable.induct)
  case r_empty
  show ?case by (simp add: rating_inv_def empty_store_def findById_def)
next
  case (r_signup s hash now name email password phone role)
  from r_signup.IH show ?case by (rule rating_inv_same [OF signup_products])
next
  case (r_updateProfile s userId name email phone address)
  from r_updateProfile.IH show ?case by (rule rating_inv_same [OF updateProfile_products])
next
  case (r_addProduct s now name price description category stock)
  from r_addProduct.IH show ?case by (rule addProduct_inv)
next
  case (r_assignAdmin s productId adminId)
  from r_assignAdmin.IH show ?case by (rule assignAdmin_inv)
next
  case (r_updateProduct s pid name price description category stock)
  from r_updateProduct.IH show ?case by (rule updateProduct_inv)
next
  case (r_postReview s now userId productId rating comment)
  from r_postReview.IH show ?case by (rule postReview_inv)
next
  case (r_addToCart s now reqUser cartProductId quantity bodyUserId queryUserId)
  from r_addToCart.IH show ?case by (rule rating_inv_same [OF addToCart_products])
next
  case (r_removeFromCart s reqUser pid bodyUserId queryUserId)
  from r_removeFromCart.IH show ?case by (rule rating_inv_same [OF removeFromCart_products])
next
  case (r_placeOrder s now userId items deliveryAddress paymentMethod)
  from r_placeOrder.IH show ?case by (rule placeOrder_inv)
next
  case (r_cancelOrder s userId role orderId)
  from r_cancelOrder.IH show ?case by (rule cancelOrder_inv)
next
  case (r_updateDeliveryTracking s now orderId status location estimatedDelivery)
  from r_updateDeliveryTracking.IH show ?case by (rule rating_inv_same [OF updateDeliveryTracking_products])
qed

text \<open>
  C10. In every store reachable from the empty one by the writing routes, a product with
  totalReviews \<open>\<ge>\<close> 1 has an averageRating between 1 and 5.
\<close>

theorem average_rating_bounded:
  assumes "reachable s" and "findById (products s) pid = Some p" and "1 \<le> p_totalReviews p"
  shows "1 \<le> p_averageRating p \<and> p_averageRating p \<le> 5"
  using reachable_rating_inv [OF assms(1)] assms(2,3)
  by (simp add: rating_inv_def product_ok_def)

lemma shop_day1_lamp:
  "map_option (\<lambda>p. (p_totalReviews p, p_averageRating p, map rv_rating (p_reviews p)))
     (findById (products shop_day1) 1) = Some (1, 4, [4])"
  by code_simp

theorem average_rating_bounded_witness:
  "reachable shop_day1 \<and>
   (\<exists>p. findById (products shop_day1) 1 = Some p \<and> p_totalReviews p = 1 \<and>
      1 \<le> p_averageRating p \<and> p_averageRating p \<le> 5)"
proof -
  have reach: "reachable shop_day1"
    unfolding shop_day1_def by (intro r_postReview r_addProduct r_signup r_empty)
  from shop_day1_lamp obtain p where p: "findById (products shop_day1) 1 = Some p"
    "p_totalReviews p = 1" by auto
  then have "1 \<le> p_totalReviews p" by simp
  from average_rating_bounded [OF reach p(1) this] reach p show ?thesis by blast
qed


end
